theory Spec2Isabelle
  imports Complex_Main
begin

section \<open>JavaScript numbers\<close>

text \<open>
  The TypeScript type \<open>number\<close> is an IEEE double: a finite value, one of the two
  infinities, or \<open>NaN\<close>. A finite value is given by the real number it denotes. The
  results of a division and of \<open>parseInt\<close> are rounded to the nearest double, ties to
  the even mantissa, with overflow to an infinity (\<open>round_to_double\<close>). Sums and
  differences are left exact: the controller adds and subtracts block numbers and
  millisecond timestamps, which are integers below \<open>2^53\<close>, and doubles add those
  exactly. The sign of zero is not modelled (no division of the controller has a
  negative zero as its divisor: \<open>x - x\<close> is \<open>+0\<close> for finite \<open>x\<close>).
\<close>

datatype jsnum = Num real | PInf | NInf | NaN

definition js_int :: "int \<Rightarrow> jsnum" where
  "js_int i = Num (of_int i)"

fun js_neg :: "jsnum \<Rightarrow> jsnum" where
  "js_neg (Num a) = Num (- a)"
| "js_neg PInf = NInf"
| "js_neg NInf = PInf"
| "js_neg NaN = NaN"

fun js_add :: "jsnum \<Rightarrow> jsnum \<Rightarrow> jsnum" where
  "js_add NaN _ = NaN"
| "js_add _ NaN = NaN"
| "js_add (Num a) (Num b) = Num (a + b)"
| "js_add PInf NInf = NaN"
| "js_add NInf PInf = NaN"
| "js_add PInf _ = PInf"
| "js_add NInf _ = NInf"
| "js_add (Num a) PInf = PInf"
| "js_add (Num a) NInf = NInf"

definition js_sub :: "jsnum \<Rightarrow> jsnum \<Rightarrow> jsnum" where
  "js_sub a b = js_add a (js_neg b)"

text \<open>Comparisons: every comparison with \<open>NaN\<close> is false.\<close>

fun js_lt :: "jsnum \<Rightarrow> jsnum \<Rightarrow> bool" where
  "js_lt NaN _ = False"
| "js_lt _ NaN = False"
| "js_lt (Num a) (Num b) = (a < b)"
| "js_lt PInf _ = False"
| "js_lt _ NInf = False"
| "js_lt NInf _ = True"
| "js_lt (Num a) PInf = True"

fun js_le :: "jsnum \<Rightarrow> jsnum \<Rightarrow> bool" where
  "js_le NaN _ = False"
| "js_le _ NaN = False"
| "js_le (Num a) (Num b) = (a \<le> b)"
| "js_le NInf _ = True"
| "js_le _ PInf = True"
| "js_le PInf _ = False"
| "js_le (Num a) NInf = False"

definition js_gt :: "jsnum \<Rightarrow> jsnum \<Rightarrow> bool" where
  "js_gt a b = js_lt b a"

definition js_ge :: "jsnum \<Rightarrow> jsnum \<Rightarrow> bool" where
  "js_ge a b = js_le b a"

text \<open>Strict equality \<open>===\<close> on numbers: \<open>NaN\<close> is not equal to itself.\<close>

fun js_strict_eq :: "jsnum \<Rightarrow> jsnum \<Rightarrow> bool" where
  "js_strict_eq (Num a) (Num b) = (a = b)"
| "js_strict_eq PInf PInf = True"
| "js_strict_eq NInf NInf = True"
| "js_strict_eq _ _ = False"

text \<open>
  Rounding of a real number to binary64. A positive number is brought to the form
  \<open>y * 2^e\<close> with \<open>1 \<le> y < 2\<close>, or with \<open>y < 1\<close> and \<open>e = -1022\<close> for a
  subnormal; its mantissa \<open>y * 2^52\<close> is rounded to an integer, half-way cases to the
  even one; a result of \<open>2^1024\<close> or more is an infinity.
\<close>

definition pow2 :: "int \<Rightarrow> real" where
  "pow2 k = (if 0 \<le> k then 2 ^ nat k else 1 / 2 ^ nat (- k))"

definition round_half_even :: "real \<Rightarrow> int" where
  "round_half_even z =
     (let f = \<lfloor>z\<rfloor>; d = z - of_int f
      in if d < 1 / 2 then f else if 1 / 2 < d then f + 1 else if even f then f else f + 1)"

function normalise_up :: "real \<Rightarrow> int \<Rightarrow> real \<times> int" where
  "normalise_up x e = (if 2 \<le> x \<and> e < 1024 then normalise_up (x / 2) (e + 1) else (x, e))"
  by pat_completeness auto
termination
  by (relation "measure (\<lambda>(x, e). nat (1024 - e))") auto

function normalise_down :: "real \<Rightarrow> int \<Rightarrow> real \<times> int" where
  "normalise_down x e =
     (if x < 1 \<and> - 1022 < e then normalise_down (2 * x) (e - 1) else (x, e))"
  by pat_completeness auto
termination
  by (relation "measure (\<lambda>(x, e). nat (e + 1022))") auto

declare normalise_up.simps [simp del] normalise_down.simps [simp del]

definition round_positive :: "real \<Rightarrow> jsnum" where
  "round_positive x =
     (let (y, e) = (if 1 \<le> x then normalise_up x 0 else normalise_down x 0);
          m = round_half_even (y * 2 ^ 52);
          v = of_int m * pow2 (e - 52)
      in if 2 ^ 1024 \<le> v then PInf else Num v)"

definition round_to_double :: "real \<Rightarrow> jsnum" where
  "round_to_double x =
     (if x = 0 then Num 0
      else if 0 < x then round_positive x
      else js_neg (round_positive (- x)))"

text \<open>
  Division: the quotient of two finite numbers is rounded; a finite non-zero dividend
  over zero is an infinity, \<open>0 / 0\<close> is \<open>NaN\<close>.
\<close>

fun js_div :: "jsnum \<Rightarrow> jsnum \<Rightarrow> jsnum" where
  "js_div NaN _ = NaN"
| "js_div _ NaN = NaN"
| "js_div (Num a) (Num b) =
     (if b = 0 then (if a = 0 then NaN else if 0 < a then PInf else NInf)
      else round_to_double (a / b))"
| "js_div (Num a) PInf = Num 0"
| "js_div (Num a) NInf = Num 0"
| "js_div PInf (Num b) = (if 0 \<le> b then PInf else NInf)"
| "js_div NInf (Num b) = (if 0 \<le> b then NInf else PInf)"
| "js_div PInf _ = NaN"
| "js_div NInf _ = NaN"

text \<open>
  \<open>Math.round\<close> returns the integer nearest to its argument, halves towards
  \<open>+\<infinity>\<close>. For a double that integer is a double again, so nothing is rounded.
\<close>

fun Math_round :: "jsnum \<Rightarrow> jsnum" where
  "Math_round (Num a) = Num (of_int \<lfloor>a + 1 / 2\<rfloor>)"
| "Math_round x = x"

text \<open>Truthiness of a number: \<open>0\<close> and \<open>NaN\<close> are falsy.\<close>

fun truthy :: "jsnum \<Rightarrow> bool" where
  "truthy (Num a) = (a \<noteq> 0)"
| "truthy NaN = False"
| "truthy _ = True"

section \<open>\<open>parseInt\<close>\<close>

text \<open>
  A JavaScript string is a sequence of UTF-16 code units. \<open>code_units\<close> gives the
  string of an ASCII literal.
\<close>

type_synonym js_string = "nat list"

definition code_units :: "string \<Rightarrow> js_string" where
  "code_units s = map of_char s"

text \<open>
  \<open>parseInt(x)\<close> with no radix, as ECMAScript defines it: \<open>x\<close> is converted to a
  string first (so a numeric payload is represented here by its string), leading white
  space and line terminators are dropped, then an optional sign, then an optional
  \<open>0x\<close> prefix that selects radix 16; the longest prefix of digits of the radix is the
  value, rounded to a double, and \<open>NaN\<close> is returned when that prefix is empty.
  Nothing is ever thrown. The value is taken from all the digits (ECMAScript lets an
  implementation replace the decimal digits after the 20th by zeros).
\<close>

definition is_white_space :: "nat \<Rightarrow> bool" where
  "is_white_space u =
     (u \<in> set [0x0009, 0x000A, 0x000B, 0x000C, 0x000D, 0x0020, 0x00A0, 0x1680,
                0x2028, 0x2029, 0x202F, 0x205F, 0x3000, 0xFEFF] \<or>
      (0x2000 \<le> u \<and> u \<le> 0x200A))"

definition digit_value :: "nat \<Rightarrow> nat option" where
  "digit_value u =
     (if 48 \<le> u \<and> u \<le> 57 then Some (u - 48)
      else if 97 \<le> u \<and> u \<le> 122 then Some (u - 87)
      else if 65 \<le> u \<and> u \<le> 90 then Some (u - 55)
      else None)"

definition is_radix_digit :: "nat \<Rightarrow> nat \<Rightarrow> bool" where
  "is_radix_digit r u = (case digit_value u of None \<Rightarrow> False | Some d \<Rightarrow> d < r)"

fun digits_value :: "nat \<Rightarrow> nat \<Rightarrow> js_string \<Rightarrow> nat" where
  "digits_value r acc [] = acc"
| "digits_value r acc (u # us) =
     digits_value r (acc * r + (case digit_value u of None \<Rightarrow> 0 | Some d \<Rightarrow> d)) us"

text \<open>The sign is the code unit of \<open>-\<close> (45) or of \<open>+\<close> (43).\<close>

fun strip_sign :: "js_string \<Rightarrow> bool \<times> js_string" where
  "strip_sign [] = (False, [])"
| "strip_sign (u # us) =
     (if u = 45 then (True, us)
      else if u = 43 then (False, us)
      else (False, u # us))"

text \<open>The prefix is \<open>0\<close> (48) followed by \<open>x\<close> (120) or \<open>X\<close> (88).\<close>

fun strip_prefix :: "js_string \<Rightarrow> nat \<times> js_string" where
  "strip_prefix (a # b # us) =
     (if a = 48 \<and> (b = 120 \<or> b = 88) then (16, us)
      else (10, a # b # us))"
| "strip_prefix us = (10, us)"

definition parseInt :: "js_string \<Rightarrow> jsnum" where
  "parseInt inputString =
     (let (negative, S) = strip_sign (dropWhile is_white_space inputString);
          (R, S') = strip_prefix S;
          Z = takeWhile (is_radix_digit R) S'
      in if Z = [] then NaN
         else round_to_double
                (of_int ((if negative then - 1 else 1) * int (digits_value R 0 Z))))"

text \<open>
  \<open>BigInt(x)\<close> of a number throws a \<open>RangeError\<close> unless \<open>x\<close> is an integer.
\<close>

datatype error = RpcError | RangeError

fun BigInt :: "jsnum \<Rightarrow> error + int" where
  "BigInt (Num a) = (if a = of_int \<lfloor>a\<rfloor> then Inr \<lfloor>a\<rfloor> else Inl RangeError)"
| "BigInt _ = Inl RangeError"

section \<open>The controller's data\<close>

definition TEN_MINS :: jsnum where
  "TEN_MINS = Num 600000"

definition MAX_TIP_BLOCK_DELAY :: jsnum where
  "MAX_TIP_BLOCK_DELAY = Num 180000"

datatype SyncStatus = SyncNotStart | SyncPending | Syncing | SyncCompleted

text \<open>
  The interface \<open>SyncState\<close>. A field of type \<open>number | undefined\<close> is an option.
  Every \<open>timestamp\<close> the controller writes is a reading of \<open>Date.now()\<close> or the
  literal \<open>0\<close>, so the field is an integer number of milliseconds.
\<close>

record SyncState =
  nodeUrl :: string
  timestamp :: int
  indexerTipNumber :: jsnum
  cacheTipNumber :: jsnum
  bestKnownBlockNumber :: jsnum
  bestKnownBlockTimestamp :: jsnum
  indexRate :: "jsnum option"
  cacheRate :: "jsnum option"
  estimate :: "jsnum option"
  status :: SyncStatus

text \<open>The mutable private fields of \<open>SyncApiController\<close>.\<close>

record controller =
  estimates :: "SyncState list"
  cachedEstimation :: "SyncState option"

definition new_controller :: controller where
  "new_controller = \<lparr>estimates = [], cachedEstimation = None\<rparr>"

definition sampleTime :: int where
  "sampleTime = 60000"

definition indexerTipDiff :: jsnum where
  "indexerTipDiff = Num 50"

definition cacheDiff :: jsnum where
  "cacheDiff = Num 5"

definition bestKnownBlockNumberDiff :: jsnum where
  "bestKnownBlockNumberDiff = Num 50"

section \<open>The sample window\<close>

text \<open>
  \<open>url\<close> is what \<open>#getCurrentNodeUrl()\<close> returns and \<open>now\<close> what \<open>Date.now()\<close>
  returns during the call; one pass of \<open>filter\<close> is taken to read one clock value.
\<close>

definition getEstimatesByCurrentNode :: "controller \<Rightarrow> string \<Rightarrow> int \<Rightarrow> SyncState list" where
  "getEstimatesByCurrentNode c url now =
     filter (\<lambda>state. nodeUrl state = url \<and> now - timestamp state \<le> sampleTime) (estimates c)"

definition calculateAvgIndexRate ::
  "controller \<Rightarrow> string \<Rightarrow> int \<Rightarrow> jsnum \<Rightarrow> int \<Rightarrow> jsnum option" where
  "calculateAvgIndexRate c url now currentindexerTipNumber timestamp' =
     (case getEstimatesByCurrentNode c url now of
        [] \<Rightarrow> None
      | firstState # _ \<Rightarrow>
          (let advancedindexerTipNumber =
                 js_sub currentindexerTipNumber (indexerTipNumber firstState)
           in if js_lt advancedindexerTipNumber indexerTipDiff then None
              else (let lastedTime = js_int (timestamp' - timestamp firstState);
                        indexRate' = js_div advancedindexerTipNumber lastedTime
                    in Some indexRate')))"

definition foundBestKnownBlockNumber :: "controller \<Rightarrow> string \<Rightarrow> int \<Rightarrow> jsnum \<Rightarrow> bool" where
  "foundBestKnownBlockNumber c url now bestKnownBlockNumber' =
     (case getEstimatesByCurrentNode c url now of
        [] \<Rightarrow> False
      | lastEstimate # _ \<Rightarrow>
          (if js_ge (js_sub bestKnownBlockNumber' (bestKnownBlockNumber lastEstimate))
                bestKnownBlockNumberDiff
           then False
           else True))"

text \<open>
  \<open>#updateEstimates\<close> reads the clock into \<open>currentTime\<close> first; the filter of
  \<open>#getEstimatesByCurrentNode\<close> then reads it again (\<open>now\<close>).
\<close>

definition updateEstimates ::
  "controller \<Rightarrow> string \<Rightarrow> int \<Rightarrow> int \<Rightarrow> SyncState \<Rightarrow> SyncState \<times> controller" where
  "updateEstimates c url currentTime now newSyncState =
     (newSyncState,
      c\<lparr>estimates :=
          filter (\<lambda>state. currentTime - timestamp state \<le> sampleTime)
            (getEstimatesByCurrentNode c url now) @ [newSyncState]\<rparr>)"

section \<open>One tick\<close>

text \<open>
  What a tick reads from outside the controller. The payload of the event carries the two
  tips, each given here by the string \<open>parseInt\<close> converts it to. The environment
  records, in the order \<open>#estimate\<close> reads them: the clock and the node URL before the
  first \<open>await\<close>; the outcome of \<open>getTipHeader()\<close> (\<open>None\<close> when the call is
  rejected), with the header's fields as \<open>Number(...)\<close> converts them; the outcome of
  the \<open>sync_state\<close> call, converted, and of the \<open>getTipHeader()\<close> call of the
  \<open>catch\<close> branch; then the node URL and the clock readings of the part that runs
  after the last \<open>await\<close>, one reading for each place that calls \<open>Date.now()\<close>.
\<close>

record tick_payload =
  payload_indexerTipNumber :: js_string
  payload_cacheTipNumber :: js_string

record tip_header =
  header_number :: jsnum
  header_timestamp :: jsnum

record tick_env =
  currentTimestamp :: int
  url_before :: string
  getTipHeader :: "tip_header option"
  sync_state :: "(jsnum \<times> jsnum) option"
  getTipHeader_fallback :: "tip_header option"
  url_after :: string
  now_found :: int
  now_rate :: int
  now_update :: int
  now_prune :: int

definition fetchBestKnownBlockInfo :: "tick_env \<Rightarrow> error + jsnum \<times> jsnum" where
  "fetchBestKnownBlockInfo env =
     (case sync_state env of
        Some (best_known_block_number, best_known_block_timestamp) \<Rightarrow>
          Inr (best_known_block_number, best_known_block_timestamp)
      | None \<Rightarrow>
          (case getTipHeader_fallback env of
             None \<Rightarrow> Inl RpcError
           | Some tipHeader \<Rightarrow> Inr (header_number tipHeader, header_timestamp tipHeader)))"

definition do_estimate ::
  "controller \<Rightarrow> tick_env \<Rightarrow> tick_payload \<Rightarrow> error + SyncState \<times> controller" where
  "do_estimate c env states =
     (let indexerTipNumber' = parseInt (payload_indexerTipNumber states);
          cacheTipNumber' = parseInt (payload_cacheTipNumber states)
      in case getTipHeader env of
           None \<Rightarrow> Inl RpcError
         | Some tipHeader \<Rightarrow>
        (case fetchBestKnownBlockInfo env of
           Inl e \<Rightarrow> Inl e
         | Inr (bestKnownBlockNumber', bestKnownBlockTimestamp') \<Rightarrow>
        (let foundBestKnownBlockNumber' =
               foundBestKnownBlockNumber c (url_after env) (now_found env) bestKnownBlockNumber';
             remainingBlocksToCache = js_sub bestKnownBlockNumber' cacheTipNumber';
             remainingBlocksToIndex = js_sub bestKnownBlockNumber' indexerTipNumber';
             newSyncState =
               \<lparr>nodeUrl = url_before env,
                timestamp = currentTimestamp env,
                indexerTipNumber = indexerTipNumber',
                cacheTipNumber = cacheTipNumber',
                bestKnownBlockNumber = bestKnownBlockNumber',
                bestKnownBlockTimestamp = bestKnownBlockTimestamp',
                indexRate = None,
                cacheRate = None,
                estimate = None,
                status = Syncing\<rparr>;
             newSyncState =
               (if foundBestKnownBlockNumber' then
                  (let allCached = js_lt remainingBlocksToCache cacheDiff;
                       tipBlockTimestamp = header_timestamp tipHeader;
                       newSyncState =
                         (if allCached then
                            (let newSyncState =
                                   (if js_ge (js_add tipBlockTimestamp MAX_TIP_BLOCK_DELAY)
                                         (js_int (timestamp newSyncState))
                                    then newSyncState\<lparr>status := SyncCompleted\<rparr>
                                    else newSyncState)
                             in if js_lt (js_add tipBlockTimestamp TEN_MINS)
                                      (js_int (timestamp newSyncState))
                                then newSyncState\<lparr>status := SyncPending\<rparr>
                                else newSyncState)
                          else newSyncState)
                   in case calculateAvgIndexRate c (url_after env) (now_rate env)
                             indexerTipNumber' (currentTimestamp env) of
                        None \<Rightarrow> newSyncState
                      | Some indexRate' \<Rightarrow>
                          (if \<not> allCached \<and> truthy indexRate' then
                             newSyncState
                               \<lparr>indexRate := Some indexRate',
                                estimate :=
                                  Some (Math_round (js_div remainingBlocksToIndex indexRate'))\<rparr>
                           else newSyncState))
                else newSyncState)
         in Inr (updateEstimates c (url_after env) (now_update env) (now_prune env)
                   newSyncState))))"

section \<open>The public methods\<close>

definition getSyncStatus :: "controller \<Rightarrow> SyncStatus" where
  "getSyncStatus c =
     (if length (estimates c) = 0 then SyncNotStart
      else (let lastEstimate = estimates c ! (length (estimates c) - 1)
            in status lastEstimate))"

text \<open>
  The local \<open>lastEstimation\<close> of \<open>getCachedEstimation\<close>: the element at index
  \<open>length - 1\<close>, which is \<open>undefined\<close> (\<open>None\<close>) for the empty array.
\<close>

definition lastEstimation :: "controller \<Rightarrow> SyncState option" where
  "lastEstimation c =
     (if estimates c = [] then None else Some (estimates c ! (length (estimates c) - 1)))"

definition getCachedEstimation ::
  "controller \<Rightarrow> string \<Rightarrow> int \<Rightarrow> SyncState option \<times> controller" where
  "getCachedEstimation c url now =
     (case cachedEstimation c of
        None \<Rightarrow> (lastEstimation c, c\<lparr>cachedEstimation := lastEstimation c\<rparr>)
      | Some cached \<Rightarrow>
          (if length (estimates c) > 1 \<and>
              js_strict_eq (cacheTipNumber (estimates c ! (length (estimates c) - 2)))
                (cacheTipNumber (estimates c ! (length (estimates c) - 1)))
           then (lastEstimation c, c\<lparr>cachedEstimation := lastEstimation c\<rparr>)
           else if nodeUrl cached \<noteq> url \<or> timestamp cached + sampleTime \<le> now
           then (lastEstimation c, c\<lparr>cachedEstimation := lastEstimation c\<rparr>)
           else (Some cached, c)))"

section \<open>The event handlers\<close>

text \<open>
  The handler of \<open>cache-tip-block-updated\<close>. Its result is what leaves the controller:
  \<open>Inr (n, s)\<close> when \<open>n\<close> went to \<open>setNextBlock\<close> and \<open>s\<close> to
  \<open>SyncStateSubject.next\<close>, \<open>Inl e\<close> when the handler's promise is rejected with \<open>e\<close>.
\<close>

definition on_cache_tip_block_updated ::
  "controller \<Rightarrow> tick_env \<Rightarrow> tick_payload \<Rightarrow> (error + int \<times> SyncState) \<times> controller" where
  "on_cache_tip_block_updated c env states =
     (case do_estimate c env states of
        Inl e \<Rightarrow> (Inl e, c)
      | Inr (newSyncState, c') \<Rightarrow>
          (case BigInt (cacheTipNumber newSyncState) of
             Inl e \<Rightarrow> (Inl e, c')
           | Inr n \<Rightarrow> (Inr (n, newSyncState), c')))"

text \<open>
  The subscriber of \<open>CurrentNetworkIDSubject\<close> (the debounce belongs to the stream):
  \<open>url\<close> is the node URL when the handler runs; the sample returned is the one published.
\<close>

definition bootstrap_state :: "string \<Rightarrow> SyncState" where
  "bootstrap_state url =
     \<lparr>nodeUrl = url,
      timestamp = 0,
      indexerTipNumber = Num 0,
      cacheTipNumber = Num 0,
      bestKnownBlockNumber = Num 0,
      bestKnownBlockTimestamp = Num 0,
      indexRate = None,
      cacheRate = None,
      estimate = None,
      status = SyncNotStart\<rparr>"

definition on_current_network_changed :: "controller \<Rightarrow> string \<Rightarrow> SyncState \<times> controller" where
  "on_current_network_changed c url =
     (let newSyncState = bootstrap_state url
      in (newSyncState, c\<lparr>estimates := [newSyncState]\<rparr>))"

section \<open>Concrete scenarios\<close>

text \<open>
  A node, a sample of it, and a window holding one sample taken at time \<open>100000\<close> with
  indexer tip 100, cache tip 90 and best known block 1000.
\<close>

definition ex_url :: string where
  "ex_url = ''http://localhost:8114''"

definition ex_sample :: "int \<Rightarrow> real \<Rightarrow> real \<Rightarrow> real \<Rightarrow> SyncState" where
  "ex_sample t i k b =
     \<lparr>nodeUrl = ex_url, timestamp = t, indexerTipNumber = Num i, cacheTipNumber = Num k,
      bestKnownBlockNumber = Num b, bestKnownBlockTimestamp = Num 0,
      indexRate = None, cacheRate = None, estimate = None, status = Syncing\<rparr>"

definition ex_window :: controller where
  "ex_window = \<lparr>estimates = [ex_sample 100000 100 90 1000], cachedEstimation = None\<rparr>"

text \<open>
  A tick ten seconds later: the node answers both queries, its tip is block 1005 with
  block time \<open>tip_time\<close>, and the clock has moved on by a few milliseconds when the
  answers are in.
\<close>

definition ex_env :: "real \<Rightarrow> tick_env" where
  "ex_env tip_time =
     \<lparr>currentTimestamp = 110000, url_before = ex_url,
      getTipHeader = Some \<lparr>header_number = Num 1005, header_timestamp = Num tip_time\<rparr>,
      sync_state = Some (Num 1005, Num tip_time),
      getTipHeader_fallback = None,
      url_after = ex_url,
      now_found = 110002, now_rate = 110002, now_update = 110003, now_prune = 110003\<rparr>"

definition ex_payload :: "string \<Rightarrow> string \<Rightarrow> tick_payload" where
  "ex_payload i k =
     \<lparr>payload_indexerTipNumber = code_units i, payload_cacheTipNumber = code_units k\<rparr>"

text \<open>
  A window of two samples ten seconds apart, between which the best known block went
  from 100 to 1000.
\<close>

definition ex_window_jump :: controller where
  "ex_window_jump =
     \<lparr>estimates = [ex_sample 100000 100 90 100, ex_sample 110000 160 95 1000],
      cachedEstimation = None\<rparr>"

text \<open>
  A window after a change of node and a long pause: a sample of the active node that is
  100 seconds old, a sample of another node, and a fresh sample of the active node.
\<close>

definition ex_window_mixed :: controller where
  "ex_window_mixed =
     \<lparr>estimates =
        [ex_sample 10000 10 5 1000,
         (ex_sample 105000 500 400 2000)\<lparr>nodeUrl := ''http://example.org:8114''\<rparr>,
         ex_sample 100000 100 90 1000],
      cachedEstimation = None\<rparr>"

text \<open>
  Two samples ten seconds apart with cache tips \<open>k\<close> and 95, the older one cached.
\<close>

definition ex_window_cached :: "real \<Rightarrow> controller" where
  "ex_window_cached k =
     \<lparr>estimates = [ex_sample 100000 100 k 1000, ex_sample 110000 160 95 1005],
      cachedEstimation = Some (ex_sample 100000 100 k 1000)\<rparr>"

text \<open>
  A window with one sample taken at time 105000 with indexer tip 686, cache tip 600 and
  best known block 1000.
\<close>

definition ex_window_rounding :: controller where
  "ex_window_rounding = \<lparr>estimates = [ex_sample 105000 686 600 1000], cachedEstimation = None\<rparr>"

section \<open>Auxiliary facts\<close>

lemmas js_defs = js_sub_def js_int_def js_gt_def js_ge_def

lemmas threshold_defs = sampleTime_def indexerTipDiff_def cacheDiff_def
  bestKnownBlockNumberDiff_def TEN_MINS_def MAX_TIP_BLOCK_DELAY_def

lemmas round_defs = round_to_double_def round_positive_def round_half_even_def pow2_def
  normalise_up.simps normalise_down.simps

lemmas parse_defs = parseInt_def code_units_def is_white_space_def is_radix_digit_def
  digit_value_def round_defs

lemmas tick_defs = do_estimate_def fetchBestKnownBlockInfo_def foundBestKnownBlockNumber_def
  calculateAvgIndexRate_def updateEstimates_def getEstimatesByCurrentNode_def

lemmas ex_defs = ex_url_def ex_sample_def ex_window_def ex_env_def ex_payload_def
  ex_window_jump_def ex_window_mixed_def ex_window_cached_def ex_window_rounding_def

lemma round_to_double_not_NaN: "round_to_double x \<noteq> NaN"
  by (auto simp: round_to_double_def round_positive_def Let_def split: prod.splits)

lemma Math_round_NaN_iff: "Math_round x = NaN \<longleftrightarrow> x = NaN"
  by (cases x) simp_all

text \<open>
  The test \<open>indexRate\<close> of \<open>#estimate\<close> rejects \<open>undefined\<close>, \<open>NaN\<close> and zero.
\<close>

lemma truthy_iff: "truthy r \<longleftrightarrow> r \<noteq> NaN \<and> r \<noteq> Num 0"
  by (cases r) auto

text \<open>
  A number other than zero is rounded to zero only by underflow: its magnitude is at
  most \<open>2^-1075\<close>, half the smallest subnormal.
\<close>

lemma normalise_up_ge_1:
  "1 \<le> x \<Longrightarrow> normalise_up x e = (y, e') \<Longrightarrow> 1 \<le> y"
proof (induction x e rule: normalise_up.induct)
  case (1 x e)
  show ?case
  proof (cases "2 \<le> x \<and> e < 1024")
    case True
    with "1.prems" have "normalise_up (x / 2) (e + 1) = (y, e')"
      by (subst (asm) normalise_up.simps) simp
    with True "1.IH" show ?thesis by simp
  next
    case False
    with "1.prems" show ?thesis
      by (subst (asm) normalise_up.simps) auto
  qed
qed

lemma pow2_pos: "0 < pow2 k"
  by (simp add: pow2_def)

lemma pow2_Suc: "pow2 (k + 1) = 2 * pow2 k"
proof (cases "0 \<le> k")
  case True
  then show ?thesis by (simp add: pow2_def nat_add_distrib)
next
  case False
  then have "nat (- k) = Suc (nat (- (k + 1)))" by simp
  with False show ?thesis by (auto simp: pow2_def)
qed

lemma normalise_down_scaled:
  "normalise_down x e = (y, e') \<Longrightarrow> - 1022 \<le> e \<Longrightarrow>
   y * pow2 e' = x * pow2 e \<and> (y < 1 \<longrightarrow> e' = - 1022)"
proof (induction x e rule: normalise_down.induct)
  case (1 x e)
  show ?case
  proof (cases "x < 1 \<and> - 1022 < e")
    case True
    with "1.prems" have "normalise_down (2 * x) (e - 1) = (y, e')"
      by (subst (asm) normalise_down.simps) simp
    with True "1.IH" have "y * pow2 e' = 2 * x * pow2 (e - 1) \<and> (y < 1 \<longrightarrow> e' = - 1022)"
      by simp
    moreover have "pow2 e = 2 * pow2 (e - 1)"
      using pow2_Suc [of "e - 1"] by simp
    ultimately show ?thesis by simp
  next
    case False
    with "1.prems" show ?thesis
      by (subst (asm) normalise_down.simps) auto
  qed
qed

lemma round_half_even_0: "round_half_even z = 0 \<Longrightarrow> z \<le> 1 / 2"
  by (auto simp: round_half_even_def Let_def split: if_splits) linarith+

lemma pow2_add: "pow2 (j + k) = pow2 j * pow2 k"
proof -
  have "pow2 k = 2 powi k" for k
    by (simp add: pow2_def power_int_def power_one_over)
  then show ?thesis
    by (simp add: power_int_add)
qed

lemma round_positive_0:
  assumes "0 < x" and "round_positive x = Num 0"
  shows "x * pow2 1075 \<le> 1"
proof -
  obtain y e where n: "(if 1 \<le> x then normalise_up x 0 else normalise_down x 0) = (y, e)"
    by force
  with assms(2) have "of_int (round_half_even (y * 2 ^ 52)) * pow2 (e - 52) = 0"
    by (simp add: round_positive_def Let_def split: if_splits)
  with pow2_pos [of "e - 52"] have m: "round_half_even (y * 2 ^ 52) = 0"
    by simp
  then have "y * 2 ^ 52 \<le> 1 / 2"
    by (rule round_half_even_0)
  moreover have "pow2 52 = 2 ^ 52"
    by (simp add: pow2_def)
  ultimately have small: "y * pow2 52 * 2 \<le> 1"
    by simp
  have y: "y < 1"
  proof (rule ccontr)
    assume "\<not> y < 1"
    then have "1 * 1 \<le> y * pow2 52"
      using pow2_pos [of 52] \<open>pow2 52 = 2 ^ 52\<close> by (intro mult_mono) simp_all
    with small show False by simp
  qed
  have "\<not> 1 \<le> x"
  proof
    assume "1 \<le> x"
    with n have "1 \<le> y" by (auto dest: normalise_up_ge_1)
    with y show False by simp
  qed
  with n have "normalise_down x 0 = (y, e)" by simp
  from normalise_down_scaled [OF this]
  have both: "y * pow2 e = x * pow2 0 \<and> (y < 1 \<longrightarrow> e = - 1022)"
    by simp
  from both y have e: "e = - 1022"
    by blast
  from both have "y * pow2 e = x * pow2 0"
    by blast
  moreover have "pow2 0 = 1"
    by (simp add: pow2_def)
  ultimately have "x = y * pow2 (- 1022)"
    using e by simp
  then have "x * pow2 1075 = y * (pow2 (- 1022) * pow2 1075)"
    by simp
  also have "pow2 (- 1022) * pow2 1075 = pow2 53"
    using pow2_add [of "- 1022" 1075] by simp
  also have "pow2 53 = pow2 52 * 2"
    using pow2_Suc [of 52] by simp
  finally show ?thesis
    using small by (simp add: mult.assoc)
qed

lemma round_to_double_0:
  assumes "round_to_double x = Num 0"
  shows "\<bar>x\<bar> * pow2 1075 \<le> 1"
proof -
  consider "x = 0" | "0 < x" | "x < 0" by linarith
  then show ?thesis
  proof cases
    case 1
    then show ?thesis by simp
  next
    case 2
    with assms have "round_positive x = Num 0"
      by (simp add: round_to_double_def)
    with 2 show ?thesis
      by (simp add: round_positive_0)
  next
    case 3
    with assms have "js_neg (round_positive (- x)) = Num 0"
      by (simp add: round_to_double_def)
    then have "round_positive (- x) = Num 0"
      by (cases "round_positive (- x)") simp_all
    with 3 round_positive_0 [of "- x"] show ?thesis
      by simp
  qed
qed

text \<open>
  A rate of zero: only when the quotient underflows, which takes an elapsed time beyond
  any difference of two clock readings.
\<close>

lemma rate_not_zero:
  assumes rate: "calculateAvgIndexRate c url now cur ts = Some r"
    and range: "\<forall>s \<in> set (estimates c). \<bar>ts - timestamp s\<bar> \<le> 2 ^ 64"
  shows "r \<noteq> Num 0"
proof -
  from rate obtain first rest where
    v: "getEstimatesByCurrentNode c url now = first # rest"
    by (auto simp: calculateAvgIndexRate_def split: list.splits)
  then have "first \<in> set (getEstimatesByCurrentNode c url now)"
    by simp
  then have "first \<in> set (estimates c)"
    by (simp add: getEstimatesByCurrentNode_def)
  with range have el: "\<bar>ts - timestamp first\<bar> \<le> 2 ^ 64"
    by blast
  let ?adv = "js_sub cur (indexerTipNumber first)"
  from rate v have nlt: "\<not> js_lt ?adv (Num 50)"
    and r: "r = js_div ?adv (js_int (ts - timestamp first))"
    by (auto simp: calculateAvgIndexRate_def indexerTipDiff_def Let_def split: if_splits)
  show ?thesis
  proof (cases ?adv)
    case (Num a)
    with nlt have a: "50 \<le> a" by simp
    show ?thesis
    proof
      assume z: "r = Num 0"
      with r Num a have ne: "ts - timestamp first \<noteq> 0"
        and q: "round_to_double (a / of_int (ts - timestamp first)) = Num 0"
        by (auto simp: js_int_def split: if_splits)
      define d :: real where "d = \<bar>of_int (ts - timestamp first)\<bar>"
      from ne have d0: "0 < d" by (simp add: d_def)
      have "d = of_int \<bar>ts - timestamp first\<bar>"
        by (simp add: d_def)
      also from el have "\<dots> \<le> of_int (2 ^ 64)"
        by (simp only: of_int_le_iff)
      also have "\<dots> = pow2 64"
        by (simp add: pow2_def)
      finally have d: "d \<le> pow2 64" .
      from round_to_double_0 [OF q] have "\<bar>a\<bar> / d * pow2 1075 \<le> 1"
        by (simp add: d_def abs_divide)
      with d0 have "\<bar>a\<bar> * pow2 1075 \<le> d"
        by (simp add: field_simps)
      moreover have "pow2 1075 = pow2 64 * pow2 1011"
        using pow2_add [of 64 1011] by simp
      moreover have "1 \<le> pow2 1011"
        by (simp add: pow2_def)
      moreover from a have "1 \<le> \<bar>a\<bar>" by simp
      ultimately have "1 * (pow2 64 * 1) \<le> \<bar>a\<bar> * (pow2 64 * pow2 1011)"
        using pow2_pos [of 64] by (intro mult_mono) simp_all
      with \<open>\<bar>a\<bar> * pow2 1075 \<le> d\<close> \<open>pow2 1075 = pow2 64 * pow2 1011\<close> d a
      have "\<bar>a\<bar> * (pow2 64 * pow2 1011) \<le> pow2 64" by simp
      moreover from a \<open>1 \<le> pow2 1011\<close> pow2_pos [of 64]
      have "50 * (pow2 64 * 1) \<le> \<bar>a\<bar> * (pow2 64 * pow2 1011)"
        by (intro mult_mono) simp_all
      ultimately have "50 * pow2 64 \<le> pow2 64" by simp
      with pow2_pos [of 64] show False by simp
    qed
  next
    case PInf
    with r show ?thesis by (auto simp: js_int_def)
  next
    case NInf
    with nlt show ?thesis by simp
  next
    case NaN
    with r show ?thesis by (simp add: js_int_def)
  qed
qed

text \<open>
  With a numeric indexer tip and numeric tips in the window, the rate returned is a number
  or an infinity, never \<open>NaN\<close>.
\<close>

lemma rate_of_numbers:
  assumes rate: "calculateAvgIndexRate c url now (Num a) ts = Some r"
    and tips: "\<forall>s \<in> set (estimates c). indexerTipNumber s \<noteq> NaN"
  shows "r \<noteq> NaN"
proof -
  from rate obtain first rest where
    v: "getEstimatesByCurrentNode c url now = first # rest"
    by (auto simp: calculateAvgIndexRate_def split: list.splits)
  then have "first \<in> set (getEstimatesByCurrentNode c url now)"
    by simp
  then have "first \<in> set (estimates c)"
    by (simp add: getEstimatesByCurrentNode_def)
  with tips have t: "indexerTipNumber first \<noteq> NaN"
    by blast
  from rate v have "\<not> js_lt (js_sub (Num a) (indexerTipNumber first)) (Num 50)"
    and "r = js_div (js_sub (Num a) (indexerTipNumber first)) (js_int (ts - timestamp first))"
    by (auto simp: calculateAvgIndexRate_def indexerTipDiff_def Let_def split: if_splits)
  with t show ?thesis
    by (cases "indexerTipNumber first")
       (auto simp: js_sub_def js_int_def round_to_double_not_NaN)
qed

text \<open>
  \<open>parseInt\<close> returns \<open>NaN\<close> exactly when, after the white space, the sign and the
  prefix, the string does not begin with a digit of the radix.
\<close>

lemma parseInt_NaN_iff:
  assumes "strip_sign (dropWhile is_white_space str) = (negative, S)"
    and "strip_prefix S = (R, S')"
  shows "parseInt str = NaN \<longleftrightarrow> S' = [] \<or> \<not> is_radix_digit R (hd S')"
  using assms
  by (simp add: parseInt_def Let_def takeWhile_eq_Nil_iff round_to_double_not_NaN)

lemma ex_window_view:
  "100000 \<le> now \<Longrightarrow> now \<le> 160000 \<Longrightarrow>
   getEstimatesByCurrentNode ex_window ex_url now = [ex_sample 100000 100 90 1000]"
  by (simp add: getEstimatesByCurrentNode_def ex_window_def ex_sample_def sampleTime_def)

section \<open>Status of a tick whose cache has caught up\<close>

text \<open>
  Claim C1. Take a tick whose two queries succeed, for which the best known tip is found
  stable and all blocks are cached (best known block minus cache tip below 5). With
  \<open>tipAge\<close> the tick's \<open>currentTimestamp\<close> minus the tip header's timestamp, the
  sample that \<open>#estimate\<close> returns has status \<open>SyncCompleted\<close> when
  \<open>tipAge \<le> 180000\<close>, \<open>SyncPending\<close> when \<open>tipAge > 600000\<close>, and \<open>Syncing\<close>
  when \<open>180000 < tipAge \<le> 600000\<close>. The comparisons are JavaScript's.
\<close>

theorem status_when_all_cached:
  assumes hdr: "getTipHeader env = Some tipHeader"
    and best: "fetchBestKnownBlockInfo env = Inr (bestKnown, bestKnownTs)"
    and stable: "foundBestKnownBlockNumber c (url_after env) (now_found env) bestKnown"
    and cached: "js_lt (js_sub bestKnown (parseInt (payload_cacheTipNumber states))) (Num 5)"
  shows "\<exists>s c'. do_estimate c env states = Inr (s, c') \<and>
     (js_le (js_sub (js_int (currentTimestamp env)) (header_timestamp tipHeader)) (Num 180000)
        \<longrightarrow> status s = SyncCompleted) \<and>
     (js_gt (js_sub (js_int (currentTimestamp env)) (header_timestamp tipHeader)) (Num 600000)
        \<longrightarrow> status s = SyncPending) \<and>
     (js_gt (js_sub (js_int (currentTimestamp env)) (header_timestamp tipHeader)) (Num 180000) \<and>
      js_le (js_sub (js_int (currentTimestamp env)) (header_timestamp tipHeader)) (Num 600000)
        \<longrightarrow> status s = Syncing)"
  using assms
  by (cases "header_timestamp tipHeader")
     (auto simp: do_estimate_def Let_def updateEstimates_def cacheDiff_def js_sub_def js_int_def
        js_gt_def js_ge_def TEN_MINS_def MAX_TIP_BLOCK_DELAY_def split: option.splits)

text \<open>
  The scenario of the specification: the tip header is 60 seconds old, the cache tip is
  two blocks behind the best known block 1005, and the window holds a sample with best
  known block 1000.
\<close>

theorem status_when_all_cached_witness:
  "getTipHeader (ex_env 50000) = Some \<lparr>header_number = Num 1005, header_timestamp = Num 50000\<rparr> \<and>
   fetchBestKnownBlockInfo (ex_env 50000) = Inr (Num 1005, Num 50000) \<and>
   foundBestKnownBlockNumber ex_window (url_after (ex_env 50000)) (now_found (ex_env 50000))
     (Num 1005) \<and>
   js_lt (js_sub (Num 1005) (parseInt (payload_cacheTipNumber (ex_payload ''1003'' ''1003''))))
     (Num 5) \<and>
   js_le (js_sub (js_int (currentTimestamp (ex_env 50000))) (Num 50000)) (Num 180000) \<and>
   (\<exists>s c'. do_estimate ex_window (ex_env 50000) (ex_payload ''1003'' ''1003'') = Inr (s, c') \<and>
      status s = SyncCompleted)"
proof -
  let ?h = "\<lparr>header_number = Num 1005, header_timestamp = Num 50000\<rparr>"
  have h1: "getTipHeader (ex_env 50000) = Some ?h"
    by (simp add: ex_env_def)
  have h2: "fetchBestKnownBlockInfo (ex_env 50000) = Inr (Num 1005, Num 50000)"
    by (simp add: fetchBestKnownBlockInfo_def ex_env_def)
  have h3: "foundBestKnownBlockNumber ex_window (url_after (ex_env 50000))
      (now_found (ex_env 50000)) (Num 1005)"
    by (simp add: foundBestKnownBlockNumber_def getEstimatesByCurrentNode_def
        js_defs threshold_defs ex_defs)
  have h4: "js_lt (js_sub (Num 1005)
      (parseInt (payload_cacheTipNumber (ex_payload ''1003'' ''1003'')))) (Num 5)"
    by (simp add: js_defs parse_defs ex_defs)
  have h5: "js_le (js_sub (js_int (currentTimestamp (ex_env 50000))) (Num 50000)) (Num 180000)"
    by (simp add: js_defs ex_defs)
  from status_when_all_cached [OF h1 h2 h3 h4] h5
  have "\<exists>s c'. do_estimate ex_window (ex_env 50000) (ex_payload ''1003'' ''1003'') = Inr (s, c') \<and>
      status s = SyncCompleted"
    by auto
  with h1 h2 h3 h4 h5 show ?thesis by blast
qed

section \<open>The average index rate\<close>

text \<open>
  Claim C2 says that \<open>#calculateAvgIndexRate\<close> returns \<open>undefined\<close> when the elapsed
  time is not positive. The source computes \<open>lastedTime\<close> and divides by it with no
  test. With the window's first sample taken at time 100000 and the indexer tip 60 blocks
  ahead of it: at timestamp 100000 the elapsed time is 0 and the rate is \<open>Infinity\<close>; at
  timestamp 99000 the elapsed time is negative and so is the rate, the double nearest to
  \<open>-0.06\<close>.
\<close>

theorem rate_elapsed_not_guarded_counterexample:
  "getEstimatesByCurrentNode ex_window ex_url 100000 = [ex_sample 100000 100 90 1000] \<and>
   100000 - timestamp (ex_sample 100000 100 90 1000) \<le> 0 \<and>
   calculateAvgIndexRate ex_window ex_url 100000 (Num 160) 100000 = Some PInf \<and>
   99000 - timestamp (ex_sample 100000 100 90 1000) \<le> 0 \<and>
   calculateAvgIndexRate ex_window ex_url 100000 (Num 160) 99000 =
     Some (Num (- (1080863910568919 / 18014398509481984)))"
  by (simp add: calculateAvgIndexRate_def getEstimatesByCurrentNode_def
      js_defs threshold_defs round_defs ex_defs)

text \<open>
  Claim C2, amended. \<open>#calculateAvgIndexRate\<close> returns \<open>undefined\<close> when the window
  holds no fresh sample of the active node, and when the indexer tip has advanced by less
  than 50 blocks since the first such sample; otherwise it returns the advance divided by
  the elapsed time, whatever the sign of the elapsed time. For numeric tips this is
  \<open>Infinity\<close> when the elapsed time is 0 and the quotient, rounded to a double, in
  every other case, also when the elapsed time is negative.
\<close>

theorem calculateAvgIndexRate_result:
  "(getEstimatesByCurrentNode c url now = [] \<longrightarrow>
      calculateAvgIndexRate c url now cur ts = None) \<and>
   (\<forall>first rest. getEstimatesByCurrentNode c url now = first # rest \<longrightarrow>
      (js_lt (js_sub cur (indexerTipNumber first)) (Num 50) \<longrightarrow>
         calculateAvgIndexRate c url now cur ts = None) \<and>
      (\<not> js_lt (js_sub cur (indexerTipNumber first)) (Num 50) \<longrightarrow>
         calculateAvgIndexRate c url now cur ts =
           Some (js_div (js_sub cur (indexerTipNumber first)) (js_int (ts - timestamp first)))) \<and>
      (\<forall>a b. cur = Num a \<and> indexerTipNumber first = Num b \<and> 50 \<le> a - b \<longrightarrow>
         calculateAvgIndexRate c url now cur ts =
           (if ts - timestamp first = 0 then Some PInf
            else Some (round_to_double ((a - b) / of_int (ts - timestamp first))))))"
  by (auto simp: calculateAvgIndexRate_def indexerTipDiff_def Let_def js_sub_def js_int_def)

text \<open>
  The scenario of the specification: 60 blocks in 10000 ms are a rate of 0.006, as a
  double \<open>3458764513820541 / 2^59\<close>; and the same advance measured against a timestamp
  that is 1000 ms before the first sample.
\<close>

theorem calculateAvgIndexRate_result_witness:
  "getEstimatesByCurrentNode ex_window ex_url 110002 = [ex_sample 100000 100 90 1000] \<and>
   indexerTipNumber (ex_sample 100000 100 90 1000) = Num 100 \<and>
   (50::real) \<le> 160 - 100 \<and>
   calculateAvgIndexRate ex_window ex_url 110002 (Num 160) 110000 =
     Some (Num (3458764513820541 / 576460752303423488)) \<and>
   calculateAvgIndexRate ex_window ex_url 110002 (Num 160) 99000 =
     Some (Num (- (1080863910568919 / 18014398509481984)))"
proof -
  have v: "getEstimatesByCurrentNode ex_window ex_url 110002 = [ex_sample 100000 100 90 1000]"
    by (simp add: ex_window_view)
  have i: "indexerTipNumber (ex_sample 100000 100 90 1000) = Num 100"
    by (simp add: ex_sample_def)
  have t: "timestamp (ex_sample 100000 100 90 1000) = 100000"
    by (simp add: ex_sample_def)
  have q1: "round_to_double (60 / 10000) = Num (3458764513820541 / 576460752303423488)"
    by (simp add: round_defs)
  have q2: "round_to_double (- (60 / 1000)) = Num (- (1080863910568919 / 18014398509481984))"
    by (simp add: round_defs)
  from calculateAvgIndexRate_result [of ex_window ex_url 110002 "Num 160" 110000] v i t q1
  have r1: "calculateAvgIndexRate ex_window ex_url 110002 (Num 160) 110000 =
      Some (Num (3458764513820541 / 576460752303423488))"
    by simp
  from calculateAvgIndexRate_result [of ex_window ex_url 110002 "Num 160" 99000] v i t q2
  have r2: "calculateAvgIndexRate ex_window ex_url 110002 (Num 160) 99000 =
      Some (Num (- (1080863910568919 / 18014398509481984)))"
    by simp
  from v i r1 r2 show ?thesis by simp
qed

section \<open>Rate and estimate of a sample\<close>

text \<open>
  Claim C4 lets the sample carry a numeric estimate whenever the best known tip is found
  stable, not all blocks are cached and a rate is computed. The estimate is computed from
  the best known block, and nothing tests that block. When the answer to \<open>sync_state\<close>
  has no best known block number, \<open>parseInt(undefined, 16)\<close> is \<open>NaN\<close>: the
  comparisons of the stability test and of the cache test are false for \<open>NaN\<close>, so the
  tip counts as stable and the blocks as not all cached, the rate is 0.006, and the
  estimate that is stored is \<open>NaN\<close>.
\<close>

theorem estimate_not_a_number_counterexample:
  "fetchBestKnownBlockInfo ((ex_env 109000)\<lparr>sync_state := Some (NaN, NaN)\<rparr>) = Inr (NaN, NaN) \<and>
   foundBestKnownBlockNumber ex_window ex_url 110002 NaN \<and>
   \<not> js_lt (js_sub NaN (parseInt (code_units ''95''))) (Num 5) \<and>
   calculateAvgIndexRate ex_window ex_url 110002 (parseInt (code_units ''160'')) 110000 =
     Some (Num (3458764513820541 / 576460752303423488)) \<and>
   do_estimate ex_window ((ex_env 109000)\<lparr>sync_state := Some (NaN, NaN)\<rparr>)
       (ex_payload ''160'' ''95'') =
     Inr ((ex_sample 110000 160 95 0)
            \<lparr>bestKnownBlockNumber := NaN, bestKnownBlockTimestamp := NaN,
             indexRate := Some (Num (3458764513820541 / 576460752303423488)),
             estimate := Some NaN\<rparr>,
          \<lparr>estimates =
             [ex_sample 100000 100 90 1000,
              (ex_sample 110000 160 95 0)
                \<lparr>bestKnownBlockNumber := NaN, bestKnownBlockTimestamp := NaN,
                 indexRate := Some (Num (3458764513820541 / 576460752303423488)),
                 estimate := Some NaN\<rparr>],
           cachedEstimation = None\<rparr>)"
  by (simp add: tick_defs Let_def js_defs threshold_defs parse_defs ex_defs)

text \<open>
  Claim C4, amended. For a tick whose two queries succeed, the sample that \<open>#estimate\<close>
  returns has \<open>indexRate\<close> and \<open>estimate\<close> set, both or neither, and both if and only
  if the best known tip is found stable, not all blocks are cached, and
  \<open>#calculateAvgIndexRate\<close> returns a number other than \<open>NaN\<close> and 0. A tick with all
  blocks cached sets neither. When they are set, \<open>indexRate\<close> is the computed rate, a
  number other than \<open>NaN\<close>, and \<open>estimate\<close> is \<open>Math.round\<close> of the best known block
  minus the indexer tip, divided by that rate in double arithmetic: a number other than
  \<open>NaN\<close> when the best known block and the indexer tip are finite numbers, and
  \<open>NaN\<close> when the best known block is \<open>NaN\<close>.
\<close>

theorem rate_and_estimate_set_iff:
  assumes hdr: "getTipHeader env = Some tipHeader"
    and best: "fetchBestKnownBlockInfo env = Inr (bestKnown, bestKnownTs)"
  shows "\<exists>s c'. do_estimate c env states = Inr (s, c') \<and>
     ((indexRate s \<noteq> None \<and> estimate s \<noteq> None) \<longleftrightarrow>
        (foundBestKnownBlockNumber c (url_after env) (now_found env) bestKnown \<and>
         \<not> js_lt (js_sub bestKnown (parseInt (payload_cacheTipNumber states))) (Num 5) \<and>
         (\<exists>r. calculateAvgIndexRate c (url_after env) (now_rate env)
                 (parseInt (payload_indexerTipNumber states)) (currentTimestamp env) = Some r \<and>
              r \<noteq> NaN \<and> r \<noteq> Num 0))) \<and>
     (indexRate s = None \<longleftrightarrow> estimate s = None) \<and>
     (js_lt (js_sub bestKnown (parseInt (payload_cacheTipNumber states))) (Num 5) \<longrightarrow>
        indexRate s = None \<and> estimate s = None) \<and>
     (\<forall>r e. indexRate s = Some r \<and> estimate s = Some e \<longrightarrow>
        calculateAvgIndexRate c (url_after env) (now_rate env)
          (parseInt (payload_indexerTipNumber states)) (currentTimestamp env) = Some r \<and>
        r \<noteq> NaN \<and>
        e = Math_round (js_div (js_sub bestKnown (parseInt (payload_indexerTipNumber states))) r) \<and>
        ((\<exists>b i. bestKnown = Num b \<and> parseInt (payload_indexerTipNumber states) = Num i) \<longrightarrow>
           e \<noteq> NaN) \<and>
        (bestKnown = NaN \<longrightarrow> e = NaN))"
proof -
  let ?idx = "parseInt (payload_indexerTipNumber states)"
  have number: "Math_round (js_div (js_sub (Num b) (Num i)) r) \<noteq> NaN"
    if "r \<noteq> NaN" "r \<noteq> Num 0" for b i r
    using that by (cases r) (auto simp: js_sub_def Math_round_NaN_iff round_to_double_not_NaN)
  have nan: "Math_round (js_div (js_sub NaN x) r) = NaN" for x r
    by (simp add: js_sub_def)
  from assms show ?thesis
    by (auto simp: do_estimate_def Let_def updateEstimates_def cacheDiff_def truthy_iff
        number nan split: option.splits)
qed

text \<open>
  The scenario of the specification: indexer tip 160 against 100 ten seconds before, best
  known block 1005; the rate is the double of 0.006 and the estimate 140833. And a tick
  five seconds after a sample, 176 blocks further and 143 blocks behind the best known
  block: the rate is the double of 0.0352, the quotient the double just below 4062.5,
  and the estimate 4062.
\<close>

theorem rate_and_estimate_set_iff_witness:
  "getTipHeader (ex_env 109000) = Some \<lparr>header_number = Num 1005, header_timestamp = Num 109000\<rparr> \<and>
   fetchBestKnownBlockInfo (ex_env 109000) = Inr (Num 1005, Num 109000) \<and>
   (\<exists>s c'. do_estimate ex_window (ex_env 109000) (ex_payload ''160'' ''95'') = Inr (s, c') \<and>
      indexRate s = Some (Num (3458764513820541 / 576460752303423488)) \<and>
      estimate s = Some (Num 140833)) \<and>
   (\<exists>s c'. do_estimate ex_window_rounding (ex_env 109000) (ex_payload ''862'' ''700'') =
        Inr (s, c') \<and>
      indexRate s = Some (Num (5072854620270127 / 144115188075855872)) \<and>
      estimate s = Some (Num 4062))"
proof -
  let ?h = "\<lparr>header_number = Num 1005, header_timestamp = Num 109000\<rparr>"
  let ?env = "ex_env 109000"
  have h1: "getTipHeader ?env = Some ?h"
    by (simp add: ex_env_def)
  have h2: "fetchBestKnownBlockInfo ?env = Inr (Num 1005, Num 109000)"
    by (simp add: fetchBestKnownBlockInfo_def ex_env_def)
  have scenario: "\<exists>s c'. do_estimate w ?env (ex_payload i k) = Inr (s, c') \<and>
      indexRate s = Some rate \<and> estimate s = Some (Math_round (js_div (Num left) rate))"
    if found: "foundBestKnownBlockNumber w (url_after ?env) (now_found ?env) (Num 1005)"
      and uncached: "\<not> js_lt (js_sub (Num 1005) (parseInt (payload_cacheTipNumber (ex_payload i k))))
        (Num 5)"
      and rate: "calculateAvgIndexRate w (url_after ?env) (now_rate ?env)
        (parseInt (payload_indexerTipNumber (ex_payload i k))) (currentTimestamp ?env) = Some rate"
      and usable: "rate \<noteq> NaN" "rate \<noteq> Num 0"
      and left: "js_sub (Num 1005) (parseInt (payload_indexerTipNumber (ex_payload i k))) = Num left"
    for w i k rate left
  proof -
    from rate_and_estimate_set_iff [OF h1 h2, of w "ex_payload i k"]
    obtain s c' where
      run: "do_estimate w ?env (ex_payload i k) = Inr (s, c')"
      and both: "(indexRate s \<noteq> None \<and> estimate s \<noteq> None) \<longleftrightarrow>
        (foundBestKnownBlockNumber w (url_after ?env) (now_found ?env) (Num 1005) \<and>
         \<not> js_lt (js_sub (Num 1005) (parseInt (payload_cacheTipNumber (ex_payload i k)))) (Num 5) \<and>
         (\<exists>r. calculateAvgIndexRate w (url_after ?env) (now_rate ?env)
                 (parseInt (payload_indexerTipNumber (ex_payload i k))) (currentTimestamp ?env)
                 = Some r \<and>
              r \<noteq> NaN \<and> r \<noteq> Num 0))"
      and val: "\<forall>r e. indexRate s = Some r \<and> estimate s = Some e \<longrightarrow>
        calculateAvgIndexRate w (url_after ?env) (now_rate ?env)
          (parseInt (payload_indexerTipNumber (ex_payload i k))) (currentTimestamp ?env) = Some r \<and>
        r \<noteq> NaN \<and>
        e = Math_round (js_div (js_sub (Num 1005)
              (parseInt (payload_indexerTipNumber (ex_payload i k)))) r) \<and>
        ((\<exists>b j. Num 1005 = Num b \<and> parseInt (payload_indexerTipNumber (ex_payload i k)) = Num j)
           \<longrightarrow> e \<noteq> NaN) \<and>
        (Num 1005 = NaN \<longrightarrow> e = NaN)"
      by blast
    from both found uncached rate usable obtain r e
      where re: "indexRate s = Some r" "estimate s = Some e"
      by auto
    with val rate left have "r = rate" "e = Math_round (js_div (Num left) rate)"
      by auto
    with re run show ?thesis by blast
  qed
  have s1: "\<exists>s c'. do_estimate ex_window ?env (ex_payload ''160'' ''95'') = Inr (s, c') \<and>
      indexRate s = Some (Num (3458764513820541 / 576460752303423488)) \<and>
      estimate s = Some (Math_round (js_div (Num 845) (Num (3458764513820541 / 576460752303423488))))"
    by (rule scenario)
       (simp_all add: foundBestKnownBlockNumber_def calculateAvgIndexRate_def
          getEstimatesByCurrentNode_def Let_def js_defs threshold_defs parse_defs ex_defs)
  have s2: "\<exists>s c'. do_estimate ex_window_rounding ?env (ex_payload ''862'' ''700'') = Inr (s, c') \<and>
      indexRate s = Some (Num (5072854620270127 / 144115188075855872)) \<and>
      estimate s = Some (Math_round (js_div (Num 143) (Num (5072854620270127 / 144115188075855872))))"
    by (rule scenario)
       (simp_all add: foundBestKnownBlockNumber_def calculateAvgIndexRate_def
          getEstimatesByCurrentNode_def Let_def js_defs threshold_defs parse_defs ex_defs)
  have e1: "Math_round (js_div (Num 845) (Num (3458764513820541 / 576460752303423488))) = Num 140833"
    by (simp add: round_defs)
  have e2: "Math_round (js_div (Num 143) (Num (5072854620270127 / 144115188075855872))) = Num 4062"
    by (simp add: round_defs)
  from s1 s2 h1 h2 show ?thesis
    unfolding e1 e2 by blast
qed

section \<open>The window after a push\<close>

text \<open>
  Claim C5. After \<open>#updateEstimates\<close> the window is the pushed sample preceded by
  samples of the window before that belong to the active node and whose age at
  \<open>currentTime\<close>, the clock reading of the push, is at most 60000 ms. A tick that
  succeeds ends with such a push.
\<close>

theorem window_after_push:
  "(\<exists>kept. estimates (snd (updateEstimates c url currentTime now newSyncState)) =
        kept @ [newSyncState] \<and>
      (\<forall>s \<in> set kept. s \<in> set (estimates c) \<and> nodeUrl s = url \<and>
         currentTime - timestamp s \<le> 60000)) \<and>
   (\<forall>s c'. do_estimate c env states = Inr (s, c') \<longrightarrow>
      (\<exists>kept. estimates c' = kept @ [s] \<and>
         (\<forall>x \<in> set kept. x \<in> set (estimates c) \<and> nodeUrl x = url_after env \<and>
            now_update env - timestamp x \<le> 60000)))"
  by (auto simp: do_estimate_def Let_def updateEstimates_def getEstimatesByCurrentNode_def
      sampleTime_def split: option.splits sum.splits)

text \<open>
  Of a window with a stale sample, a sample of another node and a fresh sample, only the
  fresh one is kept.
\<close>

theorem window_after_push_witness:
  "\<exists>kept s c'.
     estimates (snd (updateEstimates ex_window_mixed ex_url 110003 110003
        (ex_sample 110000 160 95 1005))) = kept @ [ex_sample 110000 160 95 1005] \<and>
     kept = [ex_sample 100000 100 90 1000] \<and>
     (\<forall>s \<in> set kept. s \<in> set (estimates ex_window_mixed) \<and> nodeUrl s = ex_url \<and>
        110003 - timestamp s \<le> 60000) \<and>
     do_estimate ex_window_mixed (ex_env 109000) (ex_payload ''160'' ''95'') = Inr (s, c') \<and>
     estimates c' = kept @ [s]"
proof -
  let ?new = "ex_sample 110000 160 95 1005"
  let ?env = "ex_env 109000"
  let ?p = "ex_payload ''160'' ''95''"
  from window_after_push [of ex_window_mixed ex_url 110003 110003 ?new ?env ?p]
  obtain kept where
    k: "estimates (snd (updateEstimates ex_window_mixed ex_url 110003 110003 ?new)) = kept @ [?new]"
    and fresh: "\<forall>s \<in> set kept. s \<in> set (estimates ex_window_mixed) \<and> nodeUrl s = ex_url \<and>
        110003 - timestamp s \<le> 60000"
    and tick: "\<forall>s c'. do_estimate ex_window_mixed ?env ?p = Inr (s, c') \<longrightarrow>
      (\<exists>kept. estimates c' = kept @ [s] \<and>
         (\<forall>x \<in> set kept. x \<in> set (estimates ex_window_mixed) \<and> nodeUrl x = url_after ?env \<and>
            now_update ?env - timestamp x \<le> 60000))"
    by blast
  have "estimates (snd (updateEstimates ex_window_mixed ex_url 110003 110003 ?new)) =
      [ex_sample 100000 100 90 1000] @ [?new]"
    by (simp add: updateEstimates_def getEstimatesByCurrentNode_def sampleTime_def ex_defs)
  with k have kept: "kept = [ex_sample 100000 100 90 1000]"
    by simp
  obtain s c' where run: "do_estimate ex_window_mixed ?env ?p = Inr (s, c')"
    and win: "estimates c' = [ex_sample 100000 100 90 1000] @ [s]"
    by (simp add: tick_defs Let_def js_defs threshold_defs parse_defs ex_defs)
  from k kept fresh run win show ?thesis
    by blast
qed

section \<open>A change of the active node\<close>

text \<open>
  Claim C6. The handler of a change of the active node replaces the window, whatever it
  held, by the single sample it publishes: the sample of the new node with timestamp,
  tips and best known block 0, no rate, no estimate and status \<open>SyncNotStart\<close>.
  \<open>getSyncStatus\<close> then returns \<open>SyncNotStart\<close>.
\<close>

theorem reset_on_node_change:
  "on_current_network_changed c url =
     (bootstrap_state url, c\<lparr>estimates := [bootstrap_state url]\<rparr>) \<and>
   bootstrap_state url =
     \<lparr>nodeUrl = url, timestamp = 0, indexerTipNumber = Num 0, cacheTipNumber = Num 0,
      bestKnownBlockNumber = Num 0, bestKnownBlockTimestamp = Num 0,
      indexRate = None, cacheRate = None, estimate = None, status = SyncNotStart\<rparr> \<and>
   getSyncStatus (snd (on_current_network_changed c url)) = SyncNotStart"
  by (simp add: on_current_network_changed_def bootstrap_state_def getSyncStatus_def Let_def)

theorem reset_on_node_change_witness:
  "estimates (snd (on_current_network_changed ex_window_mixed ''http://example.org:8114'')) =
     [bootstrap_state ''http://example.org:8114''] \<and>
   getSyncStatus (snd (on_current_network_changed ex_window_mixed ''http://example.org:8114''))
     = SyncNotStart"
proof -
  note reset = reset_on_node_change [of ex_window_mixed "''http://example.org:8114''"]
  from reset have run: "on_current_network_changed ex_window_mixed ''http://example.org:8114'' =
      (bootstrap_state ''http://example.org:8114'',
       ex_window_mixed\<lparr>estimates := [bootstrap_state ''http://example.org:8114'']\<rparr>)"
    by (rule conjunct1)
  from reset have st:
    "getSyncStatus (snd (on_current_network_changed ex_window_mixed ''http://example.org:8114''))
       = SyncNotStart"
    by (rule conjunct2 [THEN conjunct2])
  have win: "estimates (snd (on_current_network_changed ex_window_mixed ''http://example.org:8114''))
      = [bootstrap_state ''http://example.org:8114'']"
    unfolding run by simp
  from win st show ?thesis by (rule conjI)
qed

section \<open>The cached estimation\<close>

text \<open>
  Claim C7 lets \<open>getCachedEstimation\<close> keep what is cached in every case that is not
  one of its two replacements. With nothing cached yet there is no cached sample to keep
  or to compare: the window's newest sample is cached and returned, here with a window of
  one sample.
\<close>

theorem first_read_caches_newest_counterexample:
  "cachedEstimation ex_window = None \<and>
   length (estimates ex_window) = 1 \<and>
   getCachedEstimation ex_window ex_url 100001 =
     (Some (ex_sample 100000 100 90 1000),
      ex_window\<lparr>cachedEstimation := Some (ex_sample 100000 100 90 1000)\<rparr>) \<and>
   fst (getCachedEstimation ex_window ex_url 100001) \<noteq> cachedEstimation ex_window"
  by (simp add: getCachedEstimation_def lastEstimation_def ex_defs)

text \<open>
  Claim C7, amended. \<open>getCachedEstimation\<close> caches and returns the newest sample of the
  window when nothing is cached yet, and when the window holds at least two samples of
  which the two most recent have the same cache tip (by \<open>===\<close>). Otherwise, with a
  sample cached, it caches and returns the newest sample when the cached sample's node is not the active node or the cached sample is at least
  60000 ms old, and returns the cached sample, changing nothing, in every other case.
\<close>

theorem getCachedEstimation_cases:
  "(estimates c \<noteq> [] \<longrightarrow> lastEstimation c = Some (last (estimates c))) \<and>
   (estimates c = [] \<longrightarrow> lastEstimation c = None) \<and>
   (cachedEstimation c = None \<longrightarrow>
      getCachedEstimation c url now =
        (lastEstimation c, c\<lparr>cachedEstimation := lastEstimation c\<rparr>)) \<and>
   (2 \<le> length (estimates c) \<and>
    js_strict_eq (cacheTipNumber (estimates c ! (length (estimates c) - 2)))
      (cacheTipNumber (last (estimates c))) \<longrightarrow>
      getCachedEstimation c url now =
        (lastEstimation c, c\<lparr>cachedEstimation := lastEstimation c\<rparr>)) \<and>
   (\<not> (2 \<le> length (estimates c) \<and>
       js_strict_eq (cacheTipNumber (estimates c ! (length (estimates c) - 2)))
         (cacheTipNumber (last (estimates c)))) \<and>
    cachedEstimation c = Some cached \<longrightarrow>
      (nodeUrl cached \<noteq> url \<or> 60000 \<le> now - timestamp cached \<longrightarrow>
         getCachedEstimation c url now =
           (lastEstimation c, c\<lparr>cachedEstimation := lastEstimation c\<rparr>)) \<and>
      (\<not> (nodeUrl cached \<noteq> url \<or> 60000 \<le> now - timestamp cached) \<longrightarrow>
         getCachedEstimation c url now = (Some cached, c)))"
  by (auto simp: getCachedEstimation_def lastEstimation_def sampleTime_def last_conv_nth
      split: option.splits)

text \<open>
  A window of two samples with the older one cached. With cache tips 95 and 95 the newest
  sample is returned; with cache tips 90 and 95 the cached sample is returned while it is
  younger than 60000 ms and of the active node, and the newest one afterwards or for
  another node. With nothing cached the newest sample is returned.
\<close>

theorem getCachedEstimation_cases_witness:
  "getCachedEstimation (ex_window_cached 95) ex_url 120000 =
     (Some (ex_sample 110000 160 95 1005),
      (ex_window_cached 95)\<lparr>cachedEstimation := Some (ex_sample 110000 160 95 1005)\<rparr>) \<and>
   getCachedEstimation (ex_window_cached 90) ex_url 120000 =
     (Some (ex_sample 100000 100 90 1000), ex_window_cached 90) \<and>
   getCachedEstimation (ex_window_cached 90) ex_url 160000 =
     (Some (ex_sample 110000 160 95 1005),
      (ex_window_cached 90)\<lparr>cachedEstimation := Some (ex_sample 110000 160 95 1005)\<rparr>) \<and>
   getCachedEstimation (ex_window_cached 90) ''http://example.org:8114'' 120000 =
     (Some (ex_sample 110000 160 95 1005),
      (ex_window_cached 90)\<lparr>cachedEstimation := Some (ex_sample 110000 160 95 1005)\<rparr>) \<and>
   getCachedEstimation ex_window ex_url 100001 =
     (Some (ex_sample 100000 100 90 1000),
      ex_window\<lparr>cachedEstimation := Some (ex_sample 100000 100 90 1000)\<rparr>)"
proof -
  have w: "estimates (ex_window_cached k) =
      [ex_sample 100000 100 k 1000, ex_sample 110000 160 95 1005]"
    "cachedEstimation (ex_window_cached k) = Some (ex_sample 100000 100 k 1000)" for k
    by (simp_all add: ex_window_cached_def)
  have s: "cacheTipNumber (ex_sample t i k b) = Num k" "nodeUrl (ex_sample t i k b) = ex_url"
    "timestamp (ex_sample t i k b) = t" for t i k b
    by (simp_all add: ex_sample_def)
  have u: "ex_url \<noteq> ''http://example.org:8114''"
    by (simp add: ex_url_def)
  have e: "estimates ex_window = [ex_sample 100000 100 90 1000]" "cachedEstimation ex_window = None"
    by (simp_all add: ex_window_def)
  from getCachedEstimation_cases [where c = "ex_window_cached 95" and url = ex_url and now = 120000]
  have c1: "getCachedEstimation (ex_window_cached 95) ex_url 120000 =
     (Some (ex_sample 110000 160 95 1005),
      (ex_window_cached 95)\<lparr>cachedEstimation := Some (ex_sample 110000 160 95 1005)\<rparr>)"
    by (simp add: w s)
  from getCachedEstimation_cases [where c = "ex_window_cached 90" and url = ex_url and now = 120000
      and cached = "ex_sample 100000 100 90 1000"]
  have c2: "getCachedEstimation (ex_window_cached 90) ex_url 120000 =
     (Some (ex_sample 100000 100 90 1000), ex_window_cached 90)"
    by (simp add: w s)
  from getCachedEstimation_cases [where c = "ex_window_cached 90" and url = ex_url and now = 160000
      and cached = "ex_sample 100000 100 90 1000"]
  have c3: "getCachedEstimation (ex_window_cached 90) ex_url 160000 =
     (Some (ex_sample 110000 160 95 1005),
      (ex_window_cached 90)\<lparr>cachedEstimation := Some (ex_sample 110000 160 95 1005)\<rparr>)"
    by (simp add: w s)
  from getCachedEstimation_cases [where c = "ex_window_cached 90"
      and url = "''http://example.org:8114''" and now = 120000
      and cached = "ex_sample 100000 100 90 1000"] u
  have c4: "getCachedEstimation (ex_window_cached 90) ''http://example.org:8114'' 120000 =
     (Some (ex_sample 110000 160 95 1005),
      (ex_window_cached 90)\<lparr>cachedEstimation := Some (ex_sample 110000 160 95 1005)\<rparr>)"
    by (simp add: w s)
  from getCachedEstimation_cases [where c = ex_window and url = ex_url and now = 100001]
  have c5: "getCachedEstimation ex_window ex_url 100001 =
     (Some (ex_sample 100000 100 90 1000),
      ex_window\<lparr>cachedEstimation := Some (ex_sample 100000 100 90 1000)\<rparr>)"
    by (simp add: e)
  from c1 c2 c3 c4 c5 show ?thesis by blast
qed

text \<open>
  Claim C9. With an empty window and nothing cached, \<open>getCachedEstimation\<close> returns
  \<open>undefined\<close>, and \<open>undefined\<close> is what it stores as the cached value.
\<close>

theorem getCachedEstimation_empty:
  "estimates c = [] \<and> cachedEstimation c = None \<longrightarrow>
     getCachedEstimation c url now = (None, c\<lparr>cachedEstimation := None\<rparr>) \<and>
     cachedEstimation (snd (getCachedEstimation c url now)) = None"
  by (simp add: getCachedEstimation_def lastEstimation_def)

theorem getCachedEstimation_empty_witness:
  "estimates new_controller = [] \<and> cachedEstimation new_controller = None \<and>
   fst (getCachedEstimation new_controller ex_url 100000) = None \<and>
   cachedEstimation (snd (getCachedEstimation new_controller ex_url 100000)) = None"
proof -
  have h: "estimates new_controller = [] \<and> cachedEstimation new_controller = None"
    by (simp add: new_controller_def)
  with getCachedEstimation_empty [of new_controller ex_url 100000]
  have "getCachedEstimation new_controller ex_url 100000 =
      (None, new_controller\<lparr>cachedEstimation := None\<rparr>)"
    and "cachedEstimation (snd (getCachedEstimation new_controller ex_url 100000)) = None"
    by blast+
  with h show ?thesis by simp
qed

section \<open>The sample of a reset\<close>

text \<open>
  Claim C10. The sample that a change of node installs has timestamp 0. Once the clock
  reads more than 60000 it is in no filtered view of any window, so after the reset no
  rate is computed from it, the best known tip is not found stable against it, and a
  push drops it. The first tick after a reset whose queries succeed therefore returns a
  sample with status \<open>Syncing\<close> and neither rate nor estimate, which is then the only
  sample of the window.
\<close>

theorem bootstrap_sample_never_used:
  assumes clock: "60000 < now"
  shows "bootstrap_state node \<notin> set (getEstimatesByCurrentNode c url now) \<and>
    getEstimatesByCurrentNode (snd (on_current_network_changed c node)) url now = [] \<and>
    calculateAvgIndexRate (snd (on_current_network_changed c node)) url now cur ts = None \<and>
    \<not> foundBestKnownBlockNumber (snd (on_current_network_changed c node)) url now best \<and>
    estimates (snd (updateEstimates (snd (on_current_network_changed c node)) url now now' new))
      = [new] \<and>
    estimates (snd (updateEstimates (snd (on_current_network_changed c node)) url now' now new))
      = [new] \<and>
    (\<forall>env states tipHeader bestKnown.
       getTipHeader env = Some tipHeader \<and> fetchBestKnownBlockInfo env = Inr bestKnown \<and>
       60000 < now_found env \<and> 60000 < now_update env \<longrightarrow>
       \<not> foundBestKnownBlockNumber (snd (on_current_network_changed c node))
           (url_after env) (now_found env) (fst bestKnown) \<and>
       (\<exists>s c'. do_estimate (snd (on_current_network_changed c node)) env states = Inr (s, c') \<and>
          indexRate s = None \<and> estimate s = None \<and> status s = Syncing \<and>
          estimates c' = [s]))"
  using clock
  by (auto simp: on_current_network_changed_def bootstrap_state_def Let_def
      getEstimatesByCurrentNode_def calculateAvgIndexRate_def foundBestKnownBlockNumber_def
      updateEstimates_def do_estimate_def sampleTime_def split: option.splits)

text \<open>
  The node answers the first tick after a reset with best known block 1005; the clock
  reads 110002.
\<close>

theorem bootstrap_sample_never_used_witness:
  "(60000::int) < 110002 \<and>
   getTipHeader (ex_env 109000) \<noteq> None \<and>
   fetchBestKnownBlockInfo (ex_env 109000) = Inr (Num 1005, Num 109000) \<and>
   60000 < now_found (ex_env 109000) \<and> 60000 < now_update (ex_env 109000) \<and>
   \<not> foundBestKnownBlockNumber (snd (on_current_network_changed ex_window ex_url))
       ex_url 110002 (Num 1005) \<and>
   (\<exists>s c'. do_estimate (snd (on_current_network_changed ex_window ex_url)) (ex_env 109000)
        (ex_payload ''160'' ''95'') = Inr (s, c') \<and>
      indexRate s = None \<and> estimate s = None \<and> status s = Syncing \<and> estimates c' = [s])"
proof -
  let ?env = "ex_env 109000"
  have clock: "(60000::int) < 110002"
    by simp
  have h1: "getTipHeader ?env = Some \<lparr>header_number = Num 1005, header_timestamp = Num 109000\<rparr>"
    by (simp add: ex_env_def)
  have h2: "fetchBestKnownBlockInfo ?env = Inr (Num 1005, Num 109000)"
    by (simp add: fetchBestKnownBlockInfo_def ex_env_def)
  have h3: "60000 < now_found ?env" "60000 < now_update ?env"
    by (simp_all add: ex_env_def)
  note used = bootstrap_sample_never_used [OF clock, of ex_url ex_window ex_url]
  from used have unstable:
    "\<not> foundBestKnownBlockNumber (snd (on_current_network_changed ex_window ex_url))
       ex_url 110002 (Num 1005)"
    by blast
  from used h1 h2 h3 have
    "\<exists>s c'. do_estimate (snd (on_current_network_changed ex_window ex_url)) ?env
        (ex_payload ''160'' ''95'') = Inr (s, c') \<and>
      indexRate s = None \<and> estimate s = None \<and> status s = Syncing \<and> estimates c' = [s]"
    by blast
  with clock h1 h2 h3 unstable show ?thesis
    by simp
qed

section \<open>Ticks with a tip that is not a number\<close>

text \<open>
  Claim C8 expects a tick with a non-numeric tip to fail before a sample is produced.
  \<open>parseInt\<close> does not fail: it returns \<open>NaN\<close>. With the indexer tip \<open>abc\<close> the
  handler completes, the sample with indexer tip \<open>NaN\<close> is pushed into the window
  and published. With the cache tip \<open>abc\<close> the sample is pushed as well, and only
  then the conversion of the cache tip to a \<open>BigInt\<close> throws.
\<close>

theorem non_numeric_tip_counterexample:
  "parseInt (code_units ''abc'') = NaN \<and>
   on_cache_tip_block_updated new_controller (ex_env 109000) (ex_payload ''abc'' ''95'') =
     (Inr (95, (ex_sample 110000 0 95 1005)
                 \<lparr>indexerTipNumber := NaN, bestKnownBlockTimestamp := Num 109000\<rparr>),
      \<lparr>estimates = [(ex_sample 110000 0 95 1005)
                 \<lparr>indexerTipNumber := NaN, bestKnownBlockTimestamp := Num 109000\<rparr>],
       cachedEstimation = None\<rparr>) \<and>
   on_cache_tip_block_updated new_controller (ex_env 109000) (ex_payload ''160'' ''abc'') =
     (Inl RangeError,
      \<lparr>estimates = [(ex_sample 110000 160 0 1005)
                 \<lparr>cacheTipNumber := NaN, bestKnownBlockTimestamp := Num 109000\<rparr>],
       cachedEstimation = None\<rparr>) \<and>
   estimates new_controller = []"
  by (simp add: on_cache_tip_block_updated_def tick_defs Let_def js_defs threshold_defs
      parse_defs ex_defs new_controller_def)

text \<open>
  Claim C8, amended. Whatever strings the indexer tip and the cache tip of a tick are,
  no parse failure is raised. \<open>parseInt\<close> returns \<open>NaN\<close> exactly when the string,
  after its leading white space, an optional sign and an optional \<open>0x\<close> prefix, does
  not begin with a digit of the radix. When the tip header query succeeds and the
  \<open>sync_state\<close> query or the tip header query that replaces it succeeds,
  \<open>#estimate\<close> returns a sample that carries the two results of \<open>parseInt\<close>,
  \<open>NaN\<close> included, and the sample is the last one of the window the handler leaves
  behind. \<open>#estimate\<close> is rejected, before any sample is produced, exactly when the
  tip header query fails, or the \<open>sync_state\<close> query and the tip header query that
  replaces it both fail; the handler then leaves the window as it was.
\<close>

theorem tick_with_any_payload:
  "(\<forall>negative S R S'.
      strip_sign (dropWhile is_white_space str) = (negative, S) \<and> strip_prefix S = (R, S') \<longrightarrow>
      (parseInt str = NaN \<longleftrightarrow> S' = [] \<or> \<not> is_radix_digit R (hd S'))) \<and>
   (getTipHeader env \<noteq> None \<and> (sync_state env \<noteq> None \<or> getTipHeader_fallback env \<noteq> None) \<longrightarrow>
      (\<exists>s c'. do_estimate c env states = Inr (s, c') \<and>
         indexerTipNumber s = parseInt (payload_indexerTipNumber states) \<and>
         cacheTipNumber s = parseInt (payload_cacheTipNumber states) \<and>
         snd (on_cache_tip_block_updated c env states) = c' \<and>
         estimates c' \<noteq> [] \<and> last (estimates c') = s)) \<and>
   (do_estimate c env states = Inl RpcError \<longleftrightarrow>
      getTipHeader env = None \<or> (sync_state env = None \<and> getTipHeader_fallback env = None)) \<and>
   (do_estimate c env states = Inl RpcError \<longrightarrow>
      on_cache_tip_block_updated c env states = (Inl RpcError, c))"
proof -
  have parse: "\<forall>negative S R S'.
      strip_sign (dropWhile is_white_space str) = (negative, S) \<and> strip_prefix S = (R, S') \<longrightarrow>
      (parseInt str = NaN \<longleftrightarrow> S' = [] \<or> \<not> is_radix_digit R (hd S'))"
    using parseInt_NaN_iff by blast
  have tick: "getTipHeader env \<noteq> None \<and>
      (sync_state env \<noteq> None \<or> getTipHeader_fallback env \<noteq> None) \<longrightarrow>
      (\<exists>s c'. do_estimate c env states = Inr (s, c') \<and>
         indexerTipNumber s = parseInt (payload_indexerTipNumber states) \<and>
         cacheTipNumber s = parseInt (payload_cacheTipNumber states) \<and>
         snd (on_cache_tip_block_updated c env states) = c' \<and>
         estimates c' \<noteq> [] \<and> last (estimates c') = s)"
    by (auto simp: on_cache_tip_block_updated_def do_estimate_def Let_def updateEstimates_def
        fetchBestKnownBlockInfo_def split: option.splits sum.splits)
  have abort: "do_estimate c env states = Inl RpcError \<longleftrightarrow>
      getTipHeader env = None \<or> (sync_state env = None \<and> getTipHeader_fallback env = None)"
    by (auto simp: do_estimate_def Let_def updateEstimates_def fetchBestKnownBlockInfo_def
        split: option.splits sum.splits)
  have unchanged: "do_estimate c env states = Inl RpcError \<longrightarrow>
      on_cache_tip_block_updated c env states = (Inl RpcError, c)"
    by (simp add: on_cache_tip_block_updated_def)
  from parse tick abort unchanged show ?thesis
    by blast
qed

text \<open>
  The strings \<open>abc\<close> and \<open>12abc\<close>: the first begins with no digit and gives
  \<open>NaN\<close>, the second begins with a digit and gives a number, 12. The tick with indexer
  tip \<open>abc\<close> on a new controller: the node answers, and the window holds the sample
  afterwards. With no answer to the tip header query the window stays empty.
\<close>

theorem tick_with_any_payload_witness:
  "strip_sign (dropWhile is_white_space (code_units ''abc'')) = (False, code_units ''abc'') \<and>
   strip_prefix (code_units ''abc'') = (10, code_units ''abc'') \<and>
   \<not> is_radix_digit 10 (hd (code_units ''abc'')) \<and>
   parseInt (code_units ''abc'') = NaN \<and>
   strip_sign (dropWhile is_white_space (code_units ''12abc'')) = (False, code_units ''12abc'') \<and>
   strip_prefix (code_units ''12abc'') = (10, code_units ''12abc'') \<and>
   is_radix_digit 10 (hd (code_units ''12abc'')) \<and>
   parseInt (code_units ''12abc'') \<noteq> NaN \<and>
   parseInt (code_units ''12abc'') = Num 12 \<and>
   getTipHeader (ex_env 109000) \<noteq> None \<and> sync_state (ex_env 109000) \<noteq> None \<and>
   (\<exists>s c'. do_estimate new_controller (ex_env 109000) (ex_payload ''abc'' ''95'') = Inr (s, c') \<and>
      indexerTipNumber s = NaN \<and> cacheTipNumber s = Num 95 \<and>
      snd (on_cache_tip_block_updated new_controller (ex_env 109000) (ex_payload ''abc'' ''95''))
        = c' \<and>
      estimates c' \<noteq> [] \<and> last (estimates c') = s) \<and>
   getTipHeader ((ex_env 109000)\<lparr>getTipHeader := None\<rparr>) = None \<and>
   on_cache_tip_block_updated new_controller ((ex_env 109000)\<lparr>getTipHeader := None\<rparr>)
       (ex_payload ''abc'' ''95'') = (Inl RpcError, new_controller)"
proof -
  let ?env = "ex_env 109000"
  let ?p = "ex_payload ''abc'' ''95''"
  have a1: "strip_sign (dropWhile is_white_space (code_units ''abc'')) = (False, code_units ''abc'')"
    and a2: "strip_prefix (code_units ''abc'') = (10, code_units ''abc'')"
    and a3: "\<not> is_radix_digit 10 (hd (code_units ''abc''))"
    by (simp_all add: code_units_def is_white_space_def is_radix_digit_def digit_value_def)
  have b1: "strip_sign (dropWhile is_white_space (code_units ''12abc'')) =
      (False, code_units ''12abc'')"
    and b2: "strip_prefix (code_units ''12abc'') = (10, code_units ''12abc'')"
    and b3: "is_radix_digit 10 (hd (code_units ''12abc''))"
    and b4: "code_units ''12abc'' \<noteq> []"
    by (simp_all add: code_units_def is_white_space_def is_radix_digit_def digit_value_def)
  have b5: "parseInt (code_units ''12abc'') = Num 12"
    by (simp add: parse_defs)
  from tick_with_any_payload [of "code_units ''abc''"] a1 a2 a3
  have abc: "parseInt (code_units ''abc'') = NaN"
    by blast
  from tick_with_any_payload [of "code_units ''12abc''"] b1 b2 b3 b4
  have twelve: "parseInt (code_units ''12abc'') \<noteq> NaN"
    by blast
  have i: "payload_indexerTipNumber ?p = code_units ''abc''"
    by (simp add: ex_payload_def)
  have k: "parseInt (payload_cacheTipNumber ?p) = Num 95"
    by (simp add: parse_defs ex_payload_def)
  have h1: "getTipHeader ?env \<noteq> None" and h2: "sync_state ?env \<noteq> None"
    by (simp_all add: ex_env_def)
  from tick_with_any_payload [of _ ?env new_controller ?p] h1 h2
  obtain s c' where run: "do_estimate new_controller ?env ?p = Inr (s, c')"
    and tips: "indexerTipNumber s = parseInt (payload_indexerTipNumber ?p)"
      "cacheTipNumber s = parseInt (payload_cacheTipNumber ?p)"
    and win: "snd (on_cache_tip_block_updated new_controller ?env ?p) = c'"
      "estimates c' \<noteq> []" "last (estimates c') = s"
    by blast
  from tips i k abc have nan: "indexerTipNumber s = NaN" "cacheTipNumber s = Num 95"
    by simp_all
  have h3: "getTipHeader (?env\<lparr>getTipHeader := None\<rparr>) = None"
    by simp
  from tick_with_any_payload [of _ "?env\<lparr>getTipHeader := None\<rparr>" new_controller ?p] h3
  have failed: "on_cache_tip_block_updated new_controller (?env\<lparr>getTipHeader := None\<rparr>) ?p =
      (Inl RpcError, new_controller)"
    by blast
  from a1 a2 a3 abc b1 b2 b3 twelve b5 h1 h2 run nan win h3 failed show ?thesis
    by blast
qed

section \<open>Stability of the best known tip\<close>

text \<open>
  \<open>#foundBestKnownBlockNumber\<close> compares the new best known block with that of the
  first sample of the filtered view, the oldest one that is retained.
\<close>

lemma foundBestKnownBlockNumber_first:
  "foundBestKnownBlockNumber c url now best \<longleftrightarrow>
     (\<exists>first rest. getEstimatesByCurrentNode c url now = first # rest \<and>
        \<not> js_ge (js_sub best (bestKnownBlockNumber first)) (Num 50))"
  by (auto simp: foundBestKnownBlockNumber_def bestKnownBlockNumberDiff_def split: list.splits)

text \<open>
  Claim C3 compares with the most recent retained sample, which is what the name
  \<open>lastEstimate\<close> in the source announces. The window holds two fresh samples of the
  active node with best known blocks 100 and 1000, and the new best known block is
  1005: it is 5 above that of the most recent sample, and the source answers
  \<open>false\<close>, since it is 905 above that of the oldest.
\<close>

theorem stability_against_oldest_sample:
  "getEstimatesByCurrentNode ex_window_jump ex_url 120000 =
     [ex_sample 100000 100 90 100, ex_sample 110000 160 95 1000] \<and>
   js_lt (js_sub (Num 1005) (bestKnownBlockNumber (ex_sample 110000 160 95 1000))) (Num 50) \<and>
   \<not> foundBestKnownBlockNumber ex_window_jump ex_url 120000 (Num 1005)"
  by (simp add: foundBestKnownBlockNumber_def getEstimatesByCurrentNode_def
      js_defs threshold_defs ex_defs)

end
